theory Spec2Isabelle
  imports
    Complex_Main
    "HOL-Library.AList"
    "HOL-Library.Char_ord"
    "HOL-Library.List_Lexorder"
    "HOL-Library.Multiset"
    "HOL-Library.Product_Lexorder"
begin

section \<open>Values read from the stored documents\<close>

text \<open>
  A Python float: a finite value, given by the real number it stands for, an infinity or NaN.
  The arithmetic of floats is not defined here; it enters as the parameter \<open>runtime\<close> below.
\<close>

datatype pyfloat = Finite real | PosInf | NegInf | NaN

text \<open>
  What \<^verbatim>\<open>json.load\<close> returns. An object is an association list in insertion order, as a
  Python dict is; lookups read the first binding of a key.

  The characters of a string are the ASCII code points, as the chars below 128, and the lone
  surrogates U+DC80 to U+DCFF, as the chars from 128 on: char \<open>128 + k\<close> stands for
  U+DC80 + k. A lone surrogate comes out of \<^verbatim>\<open>json.load\<close> for an escape such as
  \<^verbatim>\<open>"\udc80"\<close>, and out of \<^verbatim>\<open>os.listdir\<close> for a byte of a file name that is not
  UTF-8. Other code points are outside this model.
\<close>

datatype json =
    JNull
  | JBool bool
  | JInt int
  | JFloat pyfloat
  | JStr string
  | JList "json list"
  | JObj "(string \<times> json) list"

text \<open>Python's truth value of a loaded value, as \<^verbatim>\<open>if x\<close> and \<^verbatim>\<open>x and y\<close> test it.\<close>

fun truthy :: "json \<Rightarrow> bool" where
  "truthy JNull = False"
| "truthy (JBool b) = b"
| "truthy (JInt n) = (n \<noteq> 0)"
| "truthy (JFloat x) = (x \<noteq> Finite 0)"
| "truthy (JStr s) = (s \<noteq> [])"
| "truthy (JList xs) = (xs \<noteq> [])"
| "truthy (JObj kvs) = (kvs \<noteq> [])"

text \<open>\<^verbatim>\<open>data.get(k)\<close> on a dict: the value, or None when the key is missing.\<close>

definition dict_get :: "(string \<times> json) list \<Rightarrow> string \<Rightarrow> json" where
  "dict_get d k = (case map_of d k of None \<Rightarrow> JNull | Some v \<Rightarrow> v)"

text \<open>\<^verbatim>\<open>k in data\<close> on a dict.\<close>

definition has_key :: "(string \<times> json) list \<Rightarrow> string \<Rightarrow> bool" where
  "has_key d k = (map_of d k \<noteq> None)"

text \<open>
  \<^verbatim>\<open>str.isspace\<close> on one character, and \<^verbatim>\<open>str.strip()\<close>. No surrogate is white space.
\<close>

definition is_space :: "char \<Rightarrow> bool" where
  "is_space c = (of_char c \<in> {9, 10, 11, 12, 13, 28, 29, 30, 31, 32 :: nat})"

text \<open>
  A string that the UTF-8 codec can encode: one without a lone surrogate. Writing any other
  string to a file opened with \<^verbatim>\<open>encoding="utf-8"\<close> raises UnicodeEncodeError.
\<close>

definition str_encodable :: "string \<Rightarrow> bool" where
  "str_encodable t = list_all (\<lambda>c. (of_char c :: nat) < 128) t"

definition strip :: "string \<Rightarrow> string" where
  "strip s = rev (dropWhile is_space (rev (dropWhile is_space s)))"

section \<open>clients_summary.py\<close>

text \<open>\<^verbatim>\<open>is_client_record\<close> (the same function stands in clients_menu.py).\<close>

fun is_client_record :: "json \<Rightarrow> bool" where
  "is_client_record (JObj d) =
     (if truthy (dict_get d ''name'') \<and> truthy (dict_get d ''business_name'') then True
      else if truthy (dict_get d ''business_name'')
              \<and> (has_key d ''employees_count'' \<or> has_key d ''industry'') then True
      else False)"
| "is_client_record _ = False"

definition extract_industry :: "(string \<times> json) list \<Rightarrow> string option" where
  "extract_industry d =
     (case dict_get d ''industry'' of
        JStr ind \<Rightarrow> (if strip ind \<noteq> [] then Some (strip ind) else None)
      | _ \<Rightarrow> None)"

text \<open>
  The float arithmetic of the interpreter, which is not part of this repository and is a
  parameter of the model:
  \<^item> \<open>float_of_int n\<close> is \<^verbatim>\<open>float(n)\<close> for an int, the nearest float, and None where it
    raises OverflowError;
  \<^item> \<open>float_of_str t\<close> is \<^verbatim>\<open>float(t)\<close> for a str, and None where it raises ValueError;
  \<^item> \<open>float_sum xs\<close> is \<^verbatim>\<open>sum(xs)\<close> for a non-empty list of floats;
  \<^item> \<open>float_div x n\<close> is \<^verbatim>\<open>x / n\<close> for a float and a positive int.
\<close>

record runtime =
  float_of_int :: "int \<Rightarrow> pyfloat option"
  float_of_str :: "string \<Rightarrow> pyfloat option"
  float_sum :: "pyfloat list \<Rightarrow> pyfloat"
  float_div :: "pyfloat \<Rightarrow> nat \<Rightarrow> pyfloat"

text \<open>
  \<^verbatim>\<open>float(x)\<close> inside \<^verbatim>\<open>try ... except Exception: return None\<close>: None where the
  conversion raises. A float converts to itself, a bool to 0.0 or 1.0, and None, a list and a
  dict raise TypeError.
\<close>

fun py_float :: "runtime \<Rightarrow> json \<Rightarrow> pyfloat option" where
  "py_float rt (JInt n) = float_of_int rt n"
| "py_float rt (JFloat x) = Some x"
| "py_float rt (JBool b) = Some (Finite (if b then 1 else 0))"
| "py_float rt (JStr t) = float_of_str rt t"
| "py_float rt JNull = None"
| "py_float rt (JList xs) = None"
| "py_float rt (JObj kvs) = None"

definition extract_employees :: "runtime \<Rightarrow> (string \<times> json) list \<Rightarrow> pyfloat option" where
  "extract_employees rt d =
     (case map_of d ''employees_count'' of
        Some v \<Rightarrow> py_float rt v
      | None \<Rightarrow>
         (case map_of d ''employees'' of
            Some v \<Rightarrow> py_float rt v
          | None \<Rightarrow> None))"

text \<open>The inner loop of \<^verbatim>\<open>extract_challenges\<close> over the \<^verbatim>\<open>challenges\<close> list.\<close>

fun challenge_items :: "json list \<Rightarrow> string list" where
  "challenge_items [] = []"
| "challenge_items (JStr c # cs) =
     (if strip c \<noteq> [] then strip c # challenge_items cs else challenge_items cs)"
| "challenge_items (_ # cs) = challenge_items cs"

definition extract_challenges :: "(string \<times> json) list \<Rightarrow> string list" where
  "extract_challenges d =
     (case dict_get d ''main_challenge'' of
        JStr mc \<Rightarrow> (if strip mc \<noteq> [] then [strip mc] else [])
      | _ \<Rightarrow> [])
     @ (case dict_get d ''challenges'' of
          JList ch \<Rightarrow> challenge_items ch
        | _ \<Rightarrow> [])"

text \<open>
  What one file of the folder holds: text that \<^verbatim>\<open>json.loads\<close> reads as a value, text
  that it rejects, or the rows a CSV export wrote.
\<close>

datatype content =
    JsonText json
  | BadText
  | CsvText "json list list"

fun json_loads :: "content \<Rightarrow> json option" where
  "json_loads (JsonText v) = Some v"
| "json_loads BadText = None"
| "json_loads (CsvText rows) = None"

text \<open>The four accumulators of \<^verbatim>\<open>summarize\<close>.\<close>

record acc =
  industries :: "string list"
  employee_counts :: "pyfloat list"
  challenges :: "string list"
  total_clients :: nat

definition items_of :: "json \<Rightarrow> (string \<times> json) list" where
  "items_of data = (case data of JObj d \<Rightarrow> d | _ \<Rightarrow> [])"

definition add_record :: "runtime \<Rightarrow> acc \<Rightarrow> (string \<times> json) list \<Rightarrow> acc" where
  "add_record rt a d =
     \<lparr> industries =
         (case extract_industry d of Some ind \<Rightarrow> industries a @ [ind] | None \<Rightarrow> industries a),
       employee_counts =
         (case extract_employees rt d of Some emp \<Rightarrow> employee_counts a @ [emp]
          | None \<Rightarrow> employee_counts a),
       challenges = challenges a @ extract_challenges d,
       total_clients = total_clients a + 1 \<rparr>"

text \<open>The loop \<^verbatim>\<open>for fp in files\<close>: a file that does not parse or is no client record is passed over.\<close>

fun scan :: "runtime \<Rightarrow> acc \<Rightarrow> content list \<Rightarrow> acc" where
  "scan rt a [] = a"
| "scan rt a (fp # files) =
     (case json_loads fp of
        None \<Rightarrow> scan rt a files
      | Some data \<Rightarrow>
          if \<not> is_client_record data then scan rt a files
          else scan rt (add_record rt a (items_of data)) files)"

text \<open>
  \<^verbatim>\<open>Counter(industries)\<close>: a dict from value to count, in order of first insertion.
\<close>

fun counter_add :: "'a \<Rightarrow> ('a \<times> nat) list \<Rightarrow> ('a \<times> nat) list" where
  "counter_add x [] = [(x, 1)]"
| "counter_add x ((k, n) # kns) =
     (if k = x then (k, Suc n) # kns else (k, n) # counter_add x kns)"

definition Counter :: "'a list \<Rightarrow> ('a \<times> nat) list" where
  "Counter xs = foldl (\<lambda>c x. counter_add x c) [] xs"

text \<open>
  \<^verbatim>\<open>most_common(1)\<close> is \<^verbatim>\<open>heapq.nlargest(1, items, key=count)\<close>, which is
  \<^verbatim>\<open>max(items, key=count)\<close>: the first item, in the dict's order, whose count no later
  item exceeds.
\<close>

fun max_item :: "('a \<times> nat) \<Rightarrow> ('a \<times> nat) list \<Rightarrow> ('a \<times> nat)" where
  "max_item best [] = best"
| "max_item best (q # qs) = (if snd best < snd q then max_item q qs else max_item best qs)"

definition most_common_1 :: "('a \<times> nat) list \<Rightarrow> ('a \<times> nat) list" where
  "most_common_1 c = (case c of [] \<Rightarrow> [] | p # ps \<Rightarrow> [max_item p ps])"

text \<open>
  \<^verbatim>\<open>Counter(industries).most_common(1)[0][0]\<close> under \<^verbatim>\<open>if industries\<close>. The empty
  result of \<open>most_common_1\<close> does not arise for a non-empty list.
  The fallback of \<^verbatim>\<open>generate_summary\<close> in clients_menu.py counts into a dict in the same
  way and takes \<^verbatim>\<open>max\<close> over its items by count, which is the same computation.
\<close>

definition most_common_industry :: "'a list \<Rightarrow> 'a option" where
  "most_common_industry inds =
     (if inds = [] then None
      else (case most_common_1 (Counter inds) of [] \<Rightarrow> None | p # _ \<Rightarrow> Some (fst p)))"

text \<open>\<^verbatim>\<open>sum(employee_counts) / len(employee_counts)\<close> under \<^verbatim>\<open>if employee_counts\<close>.\<close>

definition avg_employees :: "runtime \<Rightarrow> pyfloat list \<Rightarrow> pyfloat option" where
  "avg_employees rt ec =
     (if ec = [] then None else Some (float_div rt (float_sum rt ec) (length ec)))"

text \<open>The loop that removes duplicates: \<open>seen\<close> is the set, \<open>out\<close> the list built so far.\<close>

fun dedup_loop :: "'a set \<Rightarrow> 'a list \<Rightarrow> 'a list \<Rightarrow> 'a list" where
  "dedup_loop seen out [] = out"
| "dedup_loop seen out (c # cs) =
     (if c \<notin> seen then dedup_loop (insert c seen) (out @ [c]) cs
      else dedup_loop seen out cs)"

definition dedup_challenges :: "'a list \<Rightarrow> 'a list" where
  "dedup_challenges cs = dedup_loop {} [] cs"

definition empty_acc :: acc where
  "empty_acc = \<lparr> industries = [], employee_counts = [], challenges = [], total_clients = 0 \<rparr>"

text \<open>
  \<^verbatim>\<open>summarize\<close>, on the contents of the files that \<^verbatim>\<open>folder.glob("*.json")\<close> yields, in
  that order. The result is the tuple the source returns.
\<close>

definition summarize ::
  "runtime \<Rightarrow> content list \<Rightarrow> nat \<times> string option \<times> pyfloat option \<times> string list" where
  "summarize rt files =
     (let a = scan rt empty_acc files
      in (total_clients a,
          most_common_industry (industries a),
          avg_employees rt (employee_counts a),
          dedup_challenges (challenges a)))"

section \<open>clients_menu.py\<close>

text \<open>
  \<^verbatim>\<open>extract_field(data, *keys)\<close>: the value of the first key that is in the dict with a
  value other than None and the empty string; None when there is none.
\<close>

fun extract_field :: "(string \<times> json) list \<Rightarrow> string list \<Rightarrow> json" where
  "extract_field d [] = JNull"
| "extract_field d (k # keys) =
     (case map_of d k of
        Some v \<Rightarrow> if v \<noteq> JNull \<and> v \<noteq> JStr [] then v else extract_field d keys
      | None \<Rightarrow> extract_field d keys)"

section \<open>src/database.py\<close>

datatype error = FileNotFoundError | ValueError | AttributeError | TypeError | UnicodeEncodeError

text \<open>A calendar date: year, month, day. \<^verbatim>\<open>datetime.min\<close> is the first of January of year 1.\<close>

type_synonym ymd = "nat \<times> nat \<times> nat"

definition datetime_min :: ymd where
  "datetime_min = (1, 1, 1)"

text \<open>
  A path is a directory and a name in it, which is what \<^verbatim>\<open>os.path.join(dir, name)\<close> denotes
  for a name without separator. The directory \<open>''''\<close> is the working directory.
\<close>

type_synonym path = "string \<times> string"

record client_record =
  filename :: string
  path :: path
  data :: json

text \<open>\<^verbatim>\<open>x.get(k)\<close> on any loaded value: only a dict has the method.\<close>

definition py_get :: "json \<Rightarrow> string \<Rightarrow> error + json" where
  "py_get v k = (case v of JObj d \<Rightarrow> Inr (dict_get d k) | _ \<Rightarrow> Inl AttributeError)"

definition business_name :: "client_record \<Rightarrow> error + json" where
  "business_name r =
     (case py_get (data r) ''business_name'' of
        Inl e \<Rightarrow> Inl e
      | Inr b \<Rightarrow> if truthy b then Inr b else py_get (data r) ''name'')"

definition industry :: "client_record \<Rightarrow> error + json" where
  "industry r = py_get (data r) ''industry''"

text \<open>\<^verbatim>\<open>str.lower\<close>: the letters A to Z change, a surrogate does not.\<close>

definition lower_char :: "char \<Rightarrow> char" where
  "lower_char c =
     (let n = of_char c :: nat
      in if 65 \<le> n \<and> n \<le> 90 then char_of (n + 32) else c)"

definition lower :: "string \<Rightarrow> string" where
  "lower s = map lower_char s"

text \<open>\<^verbatim>\<open>os.path.basename\<close> and \<^verbatim>\<open>os.path.splitext\<close> (posixpath).\<close>

definition basename :: "string \<Rightarrow> string" where
  "basename p = rev (takeWhile (\<lambda>c. c \<noteq> CHR ''/'') (rev p))"

definition rfind :: "char \<Rightarrow> string \<Rightarrow> int" where
  "rfind c p =
     (if c \<in> set p then int (length p) - 1 - int (length (takeWhile (\<lambda>x. x \<noteq> c) (rev p)))
      else - 1)"

definition splitext :: "string \<Rightarrow> string \<times> string" where
  "splitext p =
     (let sepIndex = rfind (CHR ''/'') p; dotIndex = rfind (CHR ''.'') p
      in if sepIndex < dotIndex
            \<and> list_ex (\<lambda>c. c \<noteq> CHR ''.'') (take (nat (dotIndex - (sepIndex + 1))) (drop (nat (sepIndex + 1)) p))
         then (take (nat dotIndex) p, drop (nat dotIndex) p)
         else (p, []))"

text \<open>
  \<^verbatim>\<open>datetime.strptime(s, "%Y-%m-%d")\<close>. The format is the regular expression
  \<^verbatim>\<open>(\d\d\d\d)-(1[0-2]|0[1-9]|[1-9])-(3[0-1]|[1-2]\d|0[1-9]|[1-9]| [1-9])\<close>, matched at the
  start of the string with the alternatives tried in this order; text left over after the
  match, year 0 and a day the month does not have raise ValueError, here None.
\<close>

definition is_digit :: "char \<Rightarrow> bool" where
  "is_digit c = (48 \<le> (of_char c :: nat) \<and> (of_char c :: nat) \<le> 57)"

definition digit_val :: "char \<Rightarrow> nat" where
  "digit_val c = of_char c - 48"

definition year_re :: "string \<Rightarrow> (nat \<times> string) option" where
  "year_re s =
     (case s of
        a # b # c # d # r \<Rightarrow>
          if is_digit a \<and> is_digit b \<and> is_digit c \<and> is_digit d
          then Some (1000 * digit_val a + 100 * digit_val b + 10 * digit_val c + digit_val d, r)
          else None
      | _ \<Rightarrow> None)"

definition month_re :: "string \<Rightarrow> (nat \<times> string) list" where
  "month_re s =
     (case s of
        a # b # r \<Rightarrow>
          (if a = CHR ''1'' \<and> b \<in> set ''012'' then [(10 + digit_val b, r)] else [])
          @ (if a = CHR ''0'' \<and> b \<in> set ''123456789'' then [(digit_val b, r)] else [])
      | _ \<Rightarrow> [])
     @ (case s of
          a # r \<Rightarrow> if a \<in> set ''123456789'' then [(digit_val a, r)] else []
        | [] \<Rightarrow> [])"

definition day_re :: "string \<Rightarrow> (nat \<times> string) list" where
  "day_re s =
     (case s of
        a # b # r \<Rightarrow>
          (if a = CHR ''3'' \<and> b \<in> set ''01'' then [(30 + digit_val b, r)] else [])
          @ (if a \<in> set ''12'' \<and> is_digit b then [(10 * digit_val a + digit_val b, r)] else [])
          @ (if a = CHR ''0'' \<and> b \<in> set ''123456789'' then [(digit_val b, r)] else [])
      | _ \<Rightarrow> [])
     @ (case s of
          a # r \<Rightarrow> if a \<in> set ''123456789'' then [(digit_val a, r)] else []
        | [] \<Rightarrow> [])
     @ (case s of
          a # b # r \<Rightarrow> if a = CHR '' '' \<and> b \<in> set ''123456789'' then [(digit_val b, r)] else []
        | _ \<Rightarrow> [])"

definition is_leap :: "nat \<Rightarrow> bool" where
  "is_leap y = (y mod 4 = 0 \<and> (y mod 100 \<noteq> 0 \<or> y mod 400 = 0))"

definition days_in_month :: "nat \<Rightarrow> nat \<Rightarrow> nat" where
  "days_in_month y m =
     (if m = 2 then (if is_leap y then 29 else 28)
      else if m \<in> {4, 6, 9, 11} then 30 else 31)"

definition strptime_ymd :: "string \<Rightarrow> ymd option" where
  "strptime_ymd s =
     (case year_re s of
        None \<Rightarrow> None
      | Some (y, r1) \<Rightarrow>
          (case r1 of
             [] \<Rightarrow> None
           | h # r2 \<Rightarrow>
               if h \<noteq> CHR ''-'' then None
               else (case [(m, d, r4). (m, r3) \<leftarrow> month_re r2, r3 \<noteq> [] \<and> hd r3 = CHR ''-'',
                                       (d, r4) \<leftarrow> day_re (tl r3)] of
                       [] \<Rightarrow> None
                     | (m, d, r4) # _ \<Rightarrow>
                         if r4 \<noteq> [] then None
                         else if 1 \<le> y \<and> d \<le> days_in_month y m then Some (y, m, d)
                         else None)))"

text \<open>The property \<^verbatim>\<open>ClientRecord.date\<close>.\<close>

definition date :: "client_record \<Rightarrow> ymd option" where
  "date r =
     (let base = basename (filename r); (name, ext) = splitext base
      in if lower ext \<noteq> ''.json'' then None
         else if 11 \<le> length name then strptime_ymd (drop (length name - 10) name)
         else None)"

text \<open>
  The file system as the database sees it: the directories that exist, and the files with
  their contents in the order \<^verbatim>\<open>os.listdir\<close> yields them. Files are regular and readable.
\<close>

record fs =
  dirs :: "string list"
  entries :: "(path \<times> content) list"

definition isdir :: "fs \<Rightarrow> string \<Rightarrow> bool" where
  "isdir s d = (d \<noteq> [] \<and> d \<in> set (dirs s))"

definition parent_exists :: "fs \<Rightarrow> string \<Rightarrow> bool" where
  "parent_exists s d = (d = [] \<or> d \<in> set (dirs s))"

definition listdir :: "fs \<Rightarrow> string \<Rightarrow> string list" where
  "listdir s d = map (\<lambda>e. snd (fst e)) (filter (\<lambda>e. fst (fst e) = d) (entries s))"

text \<open>\<^verbatim>\<open>open(path, "r")\<close> and reading: None is FileNotFoundError.\<close>

definition read_file :: "fs \<Rightarrow> path \<Rightarrow> content option" where
  "read_file s p = (if parent_exists s (fst p) then map_of (entries s) p else None)"

text \<open>\<^verbatim>\<open>open(path, "w")\<close>, writing and closing: the file holds the new content alone.\<close>

definition write_file :: "fs \<Rightarrow> path \<Rightarrow> content \<Rightarrow> error + fs" where
  "write_file s p c =
     (if parent_exists s (fst p) then Inr (s\<lparr>entries := AList.update p c (entries s)\<rparr>)
      else Inl FileNotFoundError)"

text \<open>\<^verbatim>\<open>os.makedirs(d, exist_ok=True)\<close>; the empty path raises FileNotFoundError.\<close>

definition makedirs :: "fs \<Rightarrow> string \<Rightarrow> error + fs" where
  "makedirs s d =
     (if d = [] then Inl FileNotFoundError
      else if d \<in> set (dirs s) then Inr s
      else Inr (s\<lparr>dirs := dirs s @ [d]\<rparr>))"

text \<open>
  \<^verbatim>\<open>ClientDatabase\<close>. \<^verbatim>\<open>CLIENTS_SUBDIR\<close> is empty, so \<^verbatim>\<open>clients_dir\<close> names the base
  directory itself.
\<close>

record client_database =
  base_dir :: string

definition clients_dir :: "client_database \<Rightarrow> string" where
  "clients_dir db = base_dir db"

definition endswith :: "string \<Rightarrow> string \<Rightarrow> bool" where
  "endswith s suf = (length suf \<le> length s \<and> drop (length s - length suf) s = suf)"

definition iter_client_files :: "client_database \<Rightarrow> fs \<Rightarrow> path list" where
  "iter_client_files db s =
     (if \<not> isdir s (clients_dir db) then []
      else map (\<lambda>name. (clients_dir db, name))
             (filter (\<lambda>name. endswith (lower name) ''.json'') (listdir s (clients_dir db))))"

definition load_json :: "fs \<Rightarrow> path \<Rightarrow> error + json" where
  "load_json s p =
     (case read_file s p of
        None \<Rightarrow> Inl FileNotFoundError
      | Some c \<Rightarrow> (case json_loads c of None \<Rightarrow> Inl ValueError | Some v \<Rightarrow> Inr v))"

text \<open>The loop of \<^verbatim>\<open>list_clients\<close>: a file that raises FileNotFoundError or ValueError is skipped.\<close>

fun load_all :: "fs \<Rightarrow> path list \<Rightarrow> client_record list" where
  "load_all s [] = []"
| "load_all s (p # ps) =
     (case load_json s p of
        Inl e \<Rightarrow> load_all s ps
      | Inr v \<Rightarrow> \<lparr> filename = snd p, path = p, data = v \<rparr> # load_all s ps)"

definition list_key :: "client_record \<Rightarrow> ymd \<times> string" where
  "list_key r = ((case date r of None \<Rightarrow> datetime_min | Some d \<Rightarrow> d), filename r)"

definition list_clients :: "client_database \<Rightarrow> fs \<Rightarrow> client_record list" where
  "list_clients db s =
     (if \<not> isdir s (clients_dir db) then []
      else sort_key list_key (load_all s (iter_client_files db s)))"

definition load_client :: "client_database \<Rightarrow> string \<Rightarrow> fs \<Rightarrow> error + client_record" where
  "load_client db fname s =
     (case load_json s (clients_dir db, fname) of
        Inl e \<Rightarrow> Inl e
      | Inr v \<Rightarrow> Inr \<lparr> filename = fname, path = (clients_dir db, fname), data = v \<rparr>)"

text \<open>\<^verbatim>\<open>(x or "").lower()\<close>: only a string has the method.\<close>

definition lower_or_empty :: "json \<Rightarrow> error + string" where
  "lower_or_empty v =
     (if \<not> truthy v then Inr []
      else (case v of JStr t \<Rightarrow> Inr (lower t) | _ \<Rightarrow> Inl AttributeError))"

text \<open>\<^verbatim>\<open>a in b\<close> on strings.\<close>

fun contains :: "string \<Rightarrow> string \<Rightarrow> bool" where
  "contains [] a = (a = [])"
| "contains (c # cs) a = (take (length a) (c # cs) = a \<or> contains cs a)"

text \<open>
  The inner function \<^verbatim>\<open>matches\<close> of \<^verbatim>\<open>search_clients\<close>. A criterion that is None or
  empty is not applied. The date criterion is compared by its calendar date.
\<close>

definition applies :: "string option \<Rightarrow> bool" where
  "applies c = (case c of None \<Rightarrow> False | Some t \<Rightarrow> t \<noteq> [])"

definition matches ::
  "string option \<Rightarrow> string option \<Rightarrow> ymd option \<Rightarrow> client_record \<Rightarrow> error + bool" where
  "matches bname ind dt r =
     (case (if applies bname
            then (case business_name r of
                    Inl e \<Rightarrow> Inl e
                  | Inr b \<Rightarrow> (case lower_or_empty b of
                               Inl e \<Rightarrow> Inl e
                             | Inr bn \<Rightarrow> Inr (contains bn (lower (the bname)))))
            else Inr True) of
        Inl e \<Rightarrow> Inl e
      | Inr False \<Rightarrow> Inr False
      | Inr True \<Rightarrow>
         (case (if applies ind
                then (case industry r of
                        Inl e \<Rightarrow> Inl e
                      | Inr i \<Rightarrow> (case lower_or_empty i of
                                   Inl e \<Rightarrow> Inl e
                                 | Inr il \<Rightarrow> Inr (contains il (lower (the ind)))))
                else Inr True) of
            Inl e \<Rightarrow> Inl e
          | Inr False \<Rightarrow> Inr False
          | Inr True \<Rightarrow>
             (case dt of
                None \<Rightarrow> Inr True
              | Some want \<Rightarrow> Inr (date r = Some want))))"

text \<open>The list comprehension of \<^verbatim>\<open>search_clients\<close>: the first record that raises ends it.\<close>

fun select_matches ::
  "string option \<Rightarrow> string option \<Rightarrow> ymd option \<Rightarrow> client_record list \<Rightarrow> error + client_record list" where
  "select_matches bname ind dt [] = Inr []"
| "select_matches bname ind dt (r # rs) =
     (case matches bname ind dt r of
        Inl e \<Rightarrow> Inl e
      | Inr keep \<Rightarrow>
         (case select_matches bname ind dt rs of
            Inl e \<Rightarrow> Inl e
          | Inr found \<Rightarrow> Inr (if keep then r # found else found)))"

definition search_clients ::
  "client_database \<Rightarrow> string option \<Rightarrow> string option \<Rightarrow> ymd option \<Rightarrow> fs
     \<Rightarrow> error + client_record list" where
  "search_clients db bname ind dt s =
     (let all_clients = list_clients db s
      in if \<not> (applies bname \<or> applies ind \<or> dt \<noteq> None) then Inr all_clients
         else select_matches bname ind dt all_clients)"

text \<open>
  A value that \<^verbatim>\<open>json.dump(..., ensure_ascii=False)\<close> can write to a file opened with
  \<^verbatim>\<open>encoding="utf-8"\<close>: every string and every key in it can be encoded. On any other
  value the write raises UnicodeEncodeError.
\<close>

fun json_encodable :: "json \<Rightarrow> bool" where
  "json_encodable (JStr t) = str_encodable t"
| "json_encodable (JList vs) = (\<forall>v\<in>set vs. json_encodable v)"
| "json_encodable (JObj kvs) = (\<forall>kv\<in>set kvs. str_encodable (fst kv) \<and> json_encodable (snd kv))"
| "json_encodable _ = True"

text \<open>
  A value of the \<^verbatim>\<open>updates\<close> dict, which is typed \<^verbatim>\<open>Dict[str, Any]\<close>: a value made of
  the JSON types, or any other object, given by the error that \<^verbatim>\<open>json.dump\<close> raises when
  it reaches it (TypeError for an object it cannot serialise, ValueError for a container that
  holds itself).
\<close>

datatype anyval = Plain json | Foreign error

text \<open>\<^verbatim>\<open>dict.update\<close>: a key that is there keeps its place, a new key goes to the end.\<close>

fun dict_update :: "(string \<times> 'v) list \<Rightarrow> (string \<times> 'v) list \<Rightarrow> (string \<times> 'v) list" where
  "dict_update d [] = d"
| "dict_update d ((k, v) # ups) = dict_update (AList.update k v d) ups"

text \<open>
  What \<^verbatim>\<open>json.dump\<close> raises on a dict, if anything. It writes the items in the dict's
  order, each key before its value, and stops at the first key or value that fails.
\<close>

fun dump_error :: "(string \<times> anyval) list \<Rightarrow> error option" where
  "dump_error [] = None"
| "dump_error ((k, v) # items) =
     (if \<not> str_encodable k then Some UnicodeEncodeError
      else (case v of
              Foreign e \<Rightarrow> Some e
            | Plain j \<Rightarrow> if json_encodable j then dump_error items else Some UnicodeEncodeError))"

text \<open>The dict as a loaded value, once \<^verbatim>\<open>json.dump\<close> has written all of it.\<close>

definition plain_items :: "(string \<times> anyval) list \<Rightarrow> (string \<times> json) list" where
  "plain_items items = map (\<lambda>kv. (fst kv, (case snd kv of Plain j \<Rightarrow> j | Foreign e \<Rightarrow> JNull))) items"

definition any_items :: "(string \<times> json) list \<Rightarrow> (string \<times> anyval) list" where
  "any_items d = map (\<lambda>kv. (fst kv, Plain (snd kv))) d"

text \<open>
  \<^verbatim>\<open>update_client\<close>, with the file system before and after. \<^verbatim>\<open>open(path, "w")\<close> empties
  the file at once; when \<^verbatim>\<open>json.dump\<close> then raises, what is left in the file is the
  beginning of a document, which does not parse.
\<close>

definition update_client ::
  "client_database \<Rightarrow> string \<Rightarrow> (string \<times> anyval) list \<Rightarrow> fs \<Rightarrow> (error + client_record) \<times> fs" where
  "update_client db fname updates s =
     (case load_client db fname s of
        Inl e \<Rightarrow> (Inl e, s)
      | Inr r \<Rightarrow>
         (case data r of
            JObj d \<Rightarrow>
              (let merged = dict_update (any_items d) updates
               in case makedirs s (clients_dir db) of
                    Inl e \<Rightarrow> (Inl e, s)
                  | Inr s1 \<Rightarrow>
                     (case dump_error merged of
                        Some e \<Rightarrow>
                          (case write_file s1 (path r) BadText of
                             Inl e' \<Rightarrow> (Inl e', s1)
                           | Inr s2 \<Rightarrow> (Inl e, s2))
                      | None \<Rightarrow>
                          (case write_file s1 (path r) (JsonText (JObj (plain_items merged))) of
                             Inl e' \<Rightarrow> (Inl e', s1)
                           | Inr s2 \<Rightarrow> (Inr (r\<lparr>data := JObj (plain_items merged)\<rparr>), s2))))
          | _ \<Rightarrow> (Inl AttributeError, s)))"

text \<open>
  \<^verbatim>\<open>export_to_csv\<close>. The written file is kept as its rows of cells, the header first; how
  the csv module prints a cell is not modelled, except that a cell which is a string is
  written as it is, and so must be encodable, while any other cell is printed in ASCII. The
  file is opened with \<^verbatim>\<open>"w"\<close> before the rows are written: when a row raises, what is
  left is not a document.
\<close>

definition cell_encodable :: "json \<Rightarrow> bool" where
  "cell_encodable v = (case v of JStr t \<Rightarrow> str_encodable t | _ \<Rightarrow> True)"

fun all_keys :: "client_record list \<Rightarrow> error + string list" where
  "all_keys [] = Inr []"
| "all_keys (r # rs) =
     (case data r of
        JObj d \<Rightarrow> (case all_keys rs of Inl e \<Rightarrow> Inl e | Inr ks \<Rightarrow> Inr (map fst d @ ks))
      | _ \<Rightarrow> Inl AttributeError)"

definition csv_row :: "string list \<Rightarrow> client_record \<Rightarrow> json list" where
  "csv_row fieldnames r =
     map (\<lambda>f. if f = ''filename'' then JStr (filename r)
              else (case map_of (items_of (data r)) f of None \<Rightarrow> JStr [] | Some v \<Rightarrow> v))
       fieldnames"

definition default_csv_path :: "client_database \<Rightarrow> path option \<Rightarrow> path" where
  "default_csv_path db csv_path =
     (case csv_path of None \<Rightarrow> (base_dir db, ''clients_export.csv'') | Some p \<Rightarrow> p)"

definition export_to_csv :: "client_database \<Rightarrow> path option \<Rightarrow> fs \<Rightarrow> (error + path) \<times> fs" where
  "export_to_csv db csv_path s =
     (let clients = list_clients db s
      in if clients = [] then
           (case write_file s (default_csv_path db csv_path) (CsvText [[JStr ''filename'']]) of
              Inl e \<Rightarrow> (Inl e, s)
            | Inr s1 \<Rightarrow> (Inr (default_csv_path db csv_path), s1))
         else
           (case all_keys clients of
              Inl e \<Rightarrow> (Inl e, s)
            | Inr ks \<Rightarrow>
               (let fieldnames = ''filename'' # sort (remdups ks); p = default_csv_path db csv_path
                in case makedirs s (fst p) of
                     Inl e \<Rightarrow> (Inl e, s)
                   | Inr s1 \<Rightarrow>
                      (let rows = map JStr fieldnames # map (csv_row fieldnames) clients
                       in if list_all (list_all cell_encodable) rows
                          then (case write_file s1 p (CsvText rows) of
                                  Inl e \<Rightarrow> (Inl e, s1)
                                | Inr s2 \<Rightarrow> (Inr p, s2))
                          else (case write_file s1 p BadText of
                                  Inl e \<Rightarrow> (Inl e, s1)
                                | Inr s2 \<Rightarrow> (Inl UnicodeEncodeError, s2))))))"

section \<open>Notions the statements below are written in\<close>

text \<open>The client records of a folder: the documents that parse and pass the classifier, in file order.\<close>

definition classified :: "content list \<Rightarrow> (string \<times> json) list list" where
  "classified files = map items_of (filter is_client_record (List.map_filter json_loads files))"

text \<open>A file that \<^verbatim>\<open>summarize\<close> does not pass over.\<close>

definition accepted :: "content \<Rightarrow> bool" where
  "accepted fp = (case json_loads fp of None \<Rightarrow> False | Some v \<Rightarrow> is_client_record v)"

text \<open>Each value once, at the place of its first occurrence.\<close>

primrec first_occurrences :: "'a list \<Rightarrow> 'a list" where
  "first_occurrences [] = []"
| "first_occurrences (x # xs) = x # filter (\<lambda>y. y \<noteq> x) (first_occurrences xs)"






text \<open>The employee values of the client records that convert to a float, in file order.\<close>

definition employee_values :: "runtime \<Rightarrow> content list \<Rightarrow> pyfloat list" where
  "employee_values rt files = List.map_filter (extract_employees rt) (classified files)"

text \<open>The average in the specification's words: over the values that are not negative.\<close>

definition non_negative :: "pyfloat \<Rightarrow> bool" where
  "non_negative x = (case x of Finite r \<Rightarrow> 0 \<le> r | PosInf \<Rightarrow> True | _ \<Rightarrow> False)"

definition spec_average :: "runtime \<Rightarrow> content list \<Rightarrow> pyfloat option" where
  "spec_average rt files =
     (let vals = filter non_negative (employee_values rt files)
      in if vals = [] then None else Some (float_div rt (float_sum rt vals) (length vals)))"

text \<open>
  A runtime to evaluate examples with: the arithmetic of the real numbers in place of the
  float arithmetic, which agree on the integers below \<open>2 ^ 53\<close> as long as every sum and
  quotient is such an integer or a fraction with a power of two below it. It converts no
  string. The examples below stay within these bounds, and the one string they convert is
  \<^verbatim>\<open>"bad"\<close>, on which \<^verbatim>\<open>float\<close> raises.
\<close>

fun exact_add :: "pyfloat \<Rightarrow> pyfloat \<Rightarrow> pyfloat" where
  "exact_add (Finite a) (Finite b) = Finite (a + b)"
| "exact_add NaN y = NaN"
| "exact_add x NaN = NaN"
| "exact_add PosInf NegInf = NaN"
| "exact_add NegInf PosInf = NaN"
| "exact_add PosInf y = PosInf"
| "exact_add x PosInf = PosInf"
| "exact_add NegInf y = NegInf"
| "exact_add x NegInf = NegInf"

definition exact_div :: "pyfloat \<Rightarrow> nat \<Rightarrow> pyfloat" where
  "exact_div x n = (case x of Finite a \<Rightarrow> Finite (a / real n) | _ \<Rightarrow> x)"

definition exact_runtime :: runtime where
  "exact_runtime =
     \<lparr> float_of_int = (\<lambda>n. Some (Finite (of_int n))),
       float_of_str = (\<lambda>t. None),
       float_sum = foldl exact_add (Finite 0),
       float_div = exact_div \<rparr>"

text \<open>The strings among a list of values, and the elements of a value that is a list.\<close>

fun strings_of :: "json list \<Rightarrow> string list" where
  "strings_of [] = []"
| "strings_of (JStr s # vs) = s # strings_of vs"
| "strings_of (_ # vs) = strings_of vs"

definition list_items :: "json \<Rightarrow> json list" where
  "list_items v = (case v of JList vs \<Rightarrow> vs | _ \<Rightarrow> [])"

text \<open>
  A record's challenges in the specification's words: \<^verbatim>\<open>main_challenge\<close> and the lists
  \<^verbatim>\<open>challenges\<close> and \<^verbatim>\<open>main_challenges\<close>, the non-empty strings only.
\<close>

definition spec_main_challenges :: "(string \<times> json) list \<Rightarrow> string list" where
  "spec_main_challenges d =
     filter (\<lambda>s. s \<noteq> [])
       (strings_of [dict_get d ''main_challenge'']
        @ strings_of (list_items (dict_get d ''challenges''))
        @ strings_of (list_items (dict_get d ''main_challenges'')))"

text \<open>
  A key whose value is present and neither None nor the empty string, and the value of the
  first such key of a list; the employee count in the specification's words.
\<close>

definition usable :: "(string \<times> json) list \<Rightarrow> string \<Rightarrow> bool" where
  "usable d k = (has_key d k \<and> dict_get d k \<noteq> JNull \<and> dict_get d k \<noteq> JStr [])"

definition first_usable :: "(string \<times> json) list \<Rightarrow> string list \<Rightarrow> json" where
  "first_usable d keys = (case find (usable d) keys of None \<Rightarrow> JNull | Some k \<Rightarrow> dict_get d k)"

definition spec_employee_count :: "(string \<times> json) list \<Rightarrow> json" where
  "spec_employee_count d = first_usable d [''employees_count'', ''employees'', ''num_employees'']"



text \<open>A key that is in the document with a value that is not empty (Python's truth value).\<close>

definition present_nonempty :: "(string \<times> json) list \<Rightarrow> string \<Rightarrow> bool" where
  "present_nonempty d k = (has_key d k \<and> truthy (dict_get d k))"

text \<open>
  The classifier in the specification's words: name and business name present and non-empty,
  or business name present with an employee count or an industry present.
\<close>

definition spec_client_record :: "json \<Rightarrow> bool" where
  "spec_client_record doc =
     (case doc of
        JObj d \<Rightarrow>
          (present_nonempty d ''name'' \<and> present_nonempty d ''business_name'')
          \<or> (has_key d ''business_name'' \<and> (has_key d ''employees_count'' \<or> has_key d ''industry''))
      | _ \<Rightarrow> False)"

section \<open>The summary reads the client records only\<close>

lemma classified_Nil: "classified [] = []"
  by (simp add: classified_def)

lemma classified_Cons:
  "classified (fp # files) =
     (case json_loads fp of None \<Rightarrow> classified files
      | Some v \<Rightarrow> if is_client_record v then items_of v # classified files
                     else classified files)"
  by (simp add: classified_def split: option.split)

lemma scan_classified:
  "scan rt a files =
     \<lparr> industries = industries a @ List.map_filter extract_industry (classified files),
       employee_counts = employee_counts a @ List.map_filter (extract_employees rt) (classified files),
       challenges = challenges a @ concat (map extract_challenges (classified files)),
       total_clients = total_clients a + length (classified files) \<rparr>"
proof (induction files arbitrary: a)
  case Nil
  show ?case by (simp add: classified_Nil)
next
  case (Cons fp files)
  show ?case
    by (simp add: Cons.IH classified_Cons add_record_def
             split: option.split)
qed

lemma filter_first_occurrences:
  "filter P (first_occurrences xs) = first_occurrences (filter P xs)"
proof (induction xs)
  case Nil
  show ?case by simp
next
  case (Cons x xs)
  have comm: "filter P (filter (\<lambda>y. y \<noteq> x) (first_occurrences xs))
              = filter (\<lambda>y. y \<noteq> x) (filter P (first_occurrences xs))"
    by (simp add: conj_commute)
  show ?case
  proof (cases "P x")
    case True
    then show ?thesis
      by (simp only: first_occurrences.simps filter.simps if_True comm Cons.IH)
  next
    case False
    have "filter (\<lambda>y. y \<noteq> x) (filter P (first_occurrences xs)) = filter P (first_occurrences xs)"
      using False by (intro filter_True) auto
    with False show ?thesis
      by (simp only: first_occurrences.simps filter.simps if_False comm Cons.IH)
  qed
qed

lemma dedup_loop_first_occurrences:
  "dedup_loop seen out cs = out @ first_occurrences (filter (\<lambda>c. c \<notin> seen) cs)"
proof (induction cs arbitrary: seen out)
  case Nil
  show ?case by simp
next
  case (Cons c cs)
  have "filter (\<lambda>y. y \<noteq> c) (first_occurrences (filter (\<lambda>c. c \<notin> seen) cs))
        = first_occurrences (filter (\<lambda>y. y \<notin> insert c seen) cs)"
    by (simp add: filter_first_occurrences conj_commute)
  then show ?case by (simp add: Cons.IH)
qed

lemma set_first_occurrences: "set (first_occurrences xs) = set xs"
  by (induction xs) auto

lemma distinct_first_occurrences: "distinct (first_occurrences xs)"
  by (induction xs) (auto simp: set_first_occurrences)

lemma present_nonempty_truthy: "present_nonempty d k = truthy (dict_get d k)"
  by (auto simp: present_nonempty_def has_key_def dict_get_def split: option.splits)

lemma classified_filter_accepted: "classified (filter accepted files) = classified files"
  by (induction files) (auto simp: classified_Cons classified_Nil accepted_def split: option.splits)

lemma summarize_classified:
  "summarize rt files =
     (length (classified files),
      most_common_industry (List.map_filter extract_industry (classified files)),
      avg_employees rt (List.map_filter (extract_employees rt) (classified files)),
      dedup_challenges (concat (map extract_challenges (classified files))))"
  by (simp add: summarize_def scan_classified empty_acc_def Let_def)

section \<open>Counting and the most common value\<close>














section \<open>The classifier\<close>

text \<open>
  Claim C2, as the code has it: a document is a client record exactly when it is an object in
  which \<^verbatim>\<open>name\<close> and \<^verbatim>\<open>business_name\<close> are both present and non-empty, or
  \<^verbatim>\<open>business_name\<close> is present and non-empty and one of \<^verbatim>\<open>employees_count\<close>,
  \<^verbatim>\<open>industry\<close> is present. The total counts exactly the files that parse and pass this
  test, and the files that do not can be taken away without changing any aggregate.
\<close>

theorem classifier_predicate:
  "is_client_record doc =
     (case doc of
        JObj d \<Rightarrow>
          (present_nonempty d ''name'' \<and> present_nonempty d ''business_name'')
          \<or> (present_nonempty d ''business_name''
              \<and> (has_key d ''employees_count'' \<or> has_key d ''industry''))
      | _ \<Rightarrow> False)
   \<and> fst (summarize rt files) = length (filter accepted files)
   \<and> summarize rt (filter accepted files) = summarize rt files"
proof (intro conjI)
  show "is_client_record doc =
     (case doc of
        JObj d \<Rightarrow>
          (present_nonempty d ''name'' \<and> present_nonempty d ''business_name'')
          \<or> (present_nonempty d ''business_name''
              \<and> (has_key d ''employees_count'' \<or> has_key d ''industry''))
      | _ \<Rightarrow> False)"
    by (cases doc) (auto simp: present_nonempty_truthy)
  have "length (classified files) = length (filter accepted files)"
    by (induction files) (auto simp: classified_Cons classified_Nil accepted_def split: option.splits)
  then show "fst (summarize rt files) = length (filter accepted files)"
    by (simp add: summarize_classified)
  show "summarize rt (filter accepted files) = summarize rt files"
    by (simp only: summarize_classified classified_filter_accepted)
qed

theorem classifier_predicate_witness:
  "is_client_record (JObj [(''business_name'', JStr ''Acme''), (''industry'', JStr ''Tech'')])
   \<and> \<not> is_client_record (JObj [(''name'', JStr ''Ann'')])
   \<and> fst (summarize exact_runtime
        [JsonText (JObj [(''business_name'', JStr ''Acme''), (''industry'', JStr ''Tech'')]),
         BadText,
         JsonText (JObj [(''name'', JStr ''Ann'')]),
         JsonText (JList [])]) = 1"
  using classifier_predicate[of "JObj [(''business_name'', JStr ''Acme''), (''industry'', JStr ''Tech'')]"
          exact_runtime
          "[JsonText (JObj [(''business_name'', JStr ''Acme''), (''industry'', JStr ''Tech'')]),
            BadText,
            JsonText (JObj [(''name'', JStr ''Ann'')]),
            JsonText (JList [])]"]
  by (simp add: accepted_def present_nonempty_def has_key_def dict_get_def)

text \<open>
  The classifier in the specification's words accepts a document whose \<^verbatim>\<open>business_name\<close>
  is the empty string beside an industry; the code does not.
\<close>

theorem classifier_present_business_name_counterexample:
  "\<not> (is_client_record (JObj [(''business_name'', JStr ''''), (''industry'', JStr ''Tech'')])
       = spec_client_record (JObj [(''business_name'', JStr ''''), (''industry'', JStr ''Tech'')]))"
  by (simp add: spec_client_record_def present_nonempty_def has_key_def dict_get_def)

section \<open>The most common industry\<close>




section \<open>The average employee count\<close>

text \<open>
  Claim C4, as the code has it: the average is the float quotient of the sum of the employee
  values by their number, over exactly the client records whose employee value converts to a
  float, of either sign, and is absent when there is none; a record whose value does not
  convert still counts in the total, so the values 10, "bad", 20 give the average 15.0 and the
  total 3, given that the interpreter converts 10 and 20 exactly, rejects "bad", adds 10.0 and
  20.0 to 30.0 and divides 30.0 by 2 to 15.0.
\<close>

theorem average_over_converted:
  "fst (snd (snd (summarize rt files))) =
     (if employee_values rt files = [] then None
      else Some (float_div rt (float_sum rt (employee_values rt files))
                   (length (employee_values rt files))))
   \<and> fst (summarize rt files) = length (classified files)
   \<and> (float_of_int rt 10 = Some (Finite 10) \<and> float_of_int rt 20 = Some (Finite 20)
        \<and> float_of_str rt ''bad'' = None
        \<and> float_sum rt [Finite 10, Finite 20] = Finite 30
        \<and> float_div rt (Finite 30) 2 = Finite 15 \<longrightarrow>
        summarize rt
          [JsonText (JObj [(''name'', JStr ''a''), (''business_name'', JStr ''A''), (''employees_count'', JInt 10)]),
           JsonText (JObj [(''name'', JStr ''b''), (''business_name'', JStr ''B''), (''employees_count'', JStr ''bad'')]),
           JsonText (JObj [(''name'', JStr ''c''), (''business_name'', JStr ''C''), (''employees_count'', JInt 20)])]
        = (3, None, Some (Finite 15), []))"
proof (intro conjI impI)
  show "fst (snd (snd (summarize rt files))) =
     (if employee_values rt files = [] then None
      else Some (float_div rt (float_sum rt (employee_values rt files))
                   (length (employee_values rt files))))"
    by (simp add: summarize_classified employee_values_def avg_employees_def)
  show "fst (summarize rt files) = length (classified files)"
    by (simp add: summarize_classified)
  assume "float_of_int rt 10 = Some (Finite 10) \<and> float_of_int rt 20 = Some (Finite 20)
        \<and> float_of_str rt ''bad'' = None
        \<and> float_sum rt [Finite 10, Finite 20] = Finite 30
        \<and> float_div rt (Finite 30) 2 = Finite 15"
  then show "summarize rt
          [JsonText (JObj [(''name'', JStr ''a''), (''business_name'', JStr ''A''), (''employees_count'', JInt 10)]),
           JsonText (JObj [(''name'', JStr ''b''), (''business_name'', JStr ''B''), (''employees_count'', JStr ''bad'')]),
           JsonText (JObj [(''name'', JStr ''c''), (''business_name'', JStr ''C''), (''employees_count'', JInt 20)])]
        = (3, None, Some (Finite 15), [])"
    by (simp add: summarize_classified classified_def items_of_def extract_industry_def
          extract_employees_def extract_challenges_def dict_get_def has_key_def
          most_common_industry_def avg_employees_def dedup_challenges_def numeral_2_eq_2)
qed

theorem average_over_converted_witness:
  "summarize exact_runtime
          [JsonText (JObj [(''name'', JStr ''a''), (''business_name'', JStr ''A''), (''employees_count'', JInt 10)]),
           JsonText (JObj [(''name'', JStr ''b''), (''business_name'', JStr ''B''), (''employees_count'', JStr ''bad'')]),
           JsonText (JObj [(''name'', JStr ''c''), (''business_name'', JStr ''C''), (''employees_count'', JInt 20)])]
        = (3, None, Some (Finite 15), [])"
  using average_over_converted[of exact_runtime "[]"]
  by (simp add: exact_runtime_def exact_div_def)

text \<open>A negative employee count enters the average: the values -10 and 20 give 5.0, not 20.0.\<close>

theorem average_non_negative_counterexample:
  "\<not> (fst (snd (snd (summarize exact_runtime
          [JsonText (JObj [(''name'', JStr ''a''), (''business_name'', JStr ''A''), (''employees_count'', JInt (- 10))]),
           JsonText (JObj [(''name'', JStr ''b''), (''business_name'', JStr ''B''), (''employees_count'', JInt 20)])])))
       = spec_average exact_runtime
          [JsonText (JObj [(''name'', JStr ''a''), (''business_name'', JStr ''A''), (''employees_count'', JInt (- 10))]),
           JsonText (JObj [(''name'', JStr ''b''), (''business_name'', JStr ''B''), (''employees_count'', JInt 20)])])"
  by (simp add: summarize_classified spec_average_def employee_values_def classified_def items_of_def
        extract_employees_def avg_employees_def dict_get_def non_negative_def
        exact_runtime_def exact_div_def)

section \<open>The challenges\<close>

lemma challenge_items_strings:
  "challenge_items vs = filter (\<lambda>s. s \<noteq> []) (map strip (strings_of vs))"
  by (induction vs rule: challenge_items.induct) simp_all

lemma extract_challenges_strings:
  "extract_challenges d =
     filter (\<lambda>s. s \<noteq> [])
       (map strip (strings_of [dict_get d ''main_challenge'']
                   @ strings_of (list_items (dict_get d ''challenges''))))"
  by (simp add: extract_challenges_def challenge_items_strings list_items_def split: json.splits)

text \<open>
  Claim C5, as the code has it: the challenges of the summary are the challenges of the client
  records, concatenated in record order, each value kept at its first occurrence only. A
  record's challenges are its \<^verbatim>\<open>main_challenge\<close>, when a string, followed by the strings
  of its \<^verbatim>\<open>challenges\<close> list, each stripped, those that are blank left out.
\<close>

theorem all_challenges_first_occurrences:
  "snd (snd (snd (summarize rt files)))
     = first_occurrences (concat (map extract_challenges (classified files)))
   \<and> distinct (snd (snd (snd (summarize rt files))))
   \<and> set (snd (snd (snd (summarize rt files)))) = (\<Union>d\<in>set (classified files). set (extract_challenges d))
   \<and> extract_challenges d =
       filter (\<lambda>s. s \<noteq> [])
         (map strip (strings_of [dict_get d ''main_challenge'']
                     @ strings_of (list_items (dict_get d ''challenges''))))"
proof -
  have e: "snd (snd (snd (summarize rt files)))
     = first_occurrences (concat (map extract_challenges (classified files)))"
    by (simp add: summarize_classified dedup_challenges_def dedup_loop_first_occurrences)
  have d: "distinct (snd (snd (snd (summarize rt files))))"
    by (simp only: e distinct_first_occurrences)
  have s: "set (snd (snd (snd (summarize rt files))))
             = (\<Union>d\<in>set (classified files). set (extract_challenges d))"
    by (simp add: e set_first_occurrences)
  from e d s extract_challenges_strings[of d] show ?thesis by blast
qed

theorem all_challenges_first_occurrences_witness:
  "snd (snd (snd (summarize exact_runtime
      [JsonText (JObj [(''name'', JStr ''a''), (''business_name'', JStr ''A''),
                       (''main_challenge'', JStr '' cash ''), (''challenges'', JList [JStr ''staff'', JInt 3, JStr ''  '', JStr ''cash''])]),
       JsonText (JList [JStr ''x'']),
       JsonText (JObj [(''name'', JStr ''b''), (''business_name'', JStr ''B''),
                       (''challenges'', JList [JStr ''staff'', JStr ''rent''])])])))
   = [''cash'', ''staff'', ''rent'']"
  using all_challenges_first_occurrences[of exact_runtime
      "[JsonText (JObj [(''name'', JStr ''a''), (''business_name'', JStr ''A''),
                       (''main_challenge'', JStr '' cash ''), (''challenges'', JList [JStr ''staff'', JInt 3, JStr ''  '', JStr ''cash''])]),
       JsonText (JList [JStr ''x'']),
       JsonText (JObj [(''name'', JStr ''b''), (''business_name'', JStr ''B''),
                       (''challenges'', JList [JStr ''staff'', JStr ''rent''])])]" "[]"]
  by (simp add: classified_def items_of_def extract_challenges_def dict_get_def strip_def is_space_def)

text \<open>The list under \<^verbatim>\<open>main_challenges\<close> is not read.\<close>

theorem all_challenges_main_challenges_counterexample:
  "\<not> (snd (snd (snd (summarize exact_runtime
      [JsonText (JObj [(''name'', JStr ''a''), (''business_name'', JStr ''A''),
                       (''main_challenges'', JList [JStr ''cash''])])])))
       = first_occurrences (concat (map spec_main_challenges (classified
      [JsonText (JObj [(''name'', JStr ''a''), (''business_name'', JStr ''A''),
                       (''main_challenges'', JList [JStr ''cash''])])]))))"
  by (simp add: summarize_classified dedup_challenges_def classified_def items_of_def
        extract_challenges_def spec_main_challenges_def list_items_def dict_get_def)

section \<open>The employee count of one document\<close>

lemma extract_field_first_usable: "extract_field d keys = first_usable d keys"
  by (induction keys)
     (auto simp: first_usable_def usable_def has_key_def dict_get_def split: option.splits)

lemma extract_employees_first_present:
  "extract_employees rt d =
     (case find (has_key d) [''employees_count'', ''employees''] of
        None \<Rightarrow> None
      | Some k \<Rightarrow> py_float rt (dict_get d k))"
  by (auto simp: extract_employees_def has_key_def dict_get_def split: option.splits)

text \<open>
  Claim C3, as the code has it: \<^verbatim>\<open>extract_field\<close> returns the value of the first key of
  its list that is present with a value other than None and the empty string, and None when
  there is none; \<^verbatim>\<open>extract_employees\<close> converts the value of the first of
  \<^verbatim>\<open>employees_count\<close>, \<^verbatim>\<open>employees\<close> that is present, whatever the value. Both read
  these two keys only: documents that agree on them have the same employee count.
\<close>

theorem employee_count_resolution:
  "extract_field d keys = first_usable d keys
   \<and> extract_employees rt d =
       (case find (has_key d) [''employees_count'', ''employees''] of
          None \<Rightarrow> None
        | Some k \<Rightarrow> py_float rt (dict_get d k))
   \<and> (map_of d ''employees_count'' = map_of d' ''employees_count''
        \<and> map_of d ''employees'' = map_of d' ''employees'' \<longrightarrow>
      extract_field d [''employees_count'', ''employees'']
        = extract_field d' [''employees_count'', ''employees'']
      \<and> extract_employees rt d = extract_employees rt d')"
proof (intro conjI impI)
  show "extract_field d keys = first_usable d keys" by (rule extract_field_first_usable)
  show "extract_employees rt d =
       (case find (has_key d) [''employees_count'', ''employees''] of
          None \<Rightarrow> None
        | Some k \<Rightarrow> py_float rt (dict_get d k))" by (rule extract_employees_first_present)
next
  assume a: "map_of d ''employees_count'' = map_of d' ''employees_count''
        \<and> map_of d ''employees'' = map_of d' ''employees''"
  then show "extract_field d [''employees_count'', ''employees'']
        = extract_field d' [''employees_count'', ''employees'']"
    by (simp split: option.splits)
  from a show "extract_employees rt d = extract_employees rt d'"
    by (simp add: extract_employees_def split: option.splits)
qed

theorem employee_count_resolution_witness:
  "extract_field [(''employees_count'', JStr ''''), (''employees'', JInt 7), (''num_employees'', JInt 9)]
     [''employees_count'', ''employees''] = JInt 7
   \<and> extract_employees exact_runtime
       [(''employees_count'', JStr ''''), (''employees'', JInt 7), (''num_employees'', JInt 9)] = None
   \<and> extract_employees exact_runtime [(''employees'', JInt 7), (''num_employees'', JInt 9)]
       = Some (Finite 7)"
  using employee_count_resolution[of
      "[(''employees_count'', JStr ''''), (''employees'', JInt 7), (''num_employees'', JInt 9)]"
      "[''employees_count'', ''employees'']" exact_runtime
      "[(''employees_count'', JStr ''''), (''employees'', JInt 7)]"]
    employee_count_resolution[of "[(''employees'', JInt 7), (''num_employees'', JInt 9)]"
      "[]" exact_runtime "[(''employees'', JInt 7)]"]
  by (simp add: first_usable_def usable_def has_key_def dict_get_def exact_runtime_def)

text \<open>
  A document that has its head count under \<^verbatim>\<open>num_employees\<close> has no employee count. And
  \<^verbatim>\<open>extract_employees\<close> does not pass over a value that is None: with
  \<^verbatim>\<open>employees_count\<close> null and \<^verbatim>\<open>employees\<close> 7 it returns None, where the first key with
  a usable value holds 7.
\<close>

theorem employee_count_num_employees_counterexample:
  "\<not> (extract_field [(''num_employees'', JInt 5)] [''employees_count'', ''employees'']
        = spec_employee_count [(''num_employees'', JInt 5)])
   \<and> extract_employees exact_runtime [(''num_employees'', JInt 5)] = None
   \<and> \<not> (extract_employees exact_runtime [(''employees_count'', JNull), (''employees'', JInt 7)]
          = py_float exact_runtime
              (spec_employee_count [(''employees_count'', JNull), (''employees'', JInt 7)]))"
  by (simp add: spec_employee_count_def first_usable_def usable_def has_key_def dict_get_def
        extract_employees_def exact_runtime_def)

section \<open>Updating one document\<close>

lemma map_of_dict_update:
  "map_of (dict_update m ups) = map_of m ++ map_of (rev ups)"
proof (induction m ups rule: dict_update.induct)
  case (1 d)
  show ?case by simp
next
  case (2 d k v ups)
  have "map_of (AList.update k v d) ++ map_of (rev ups)
        = (map_of d ++ map_of [(k, v)]) ++ map_of (rev ups)"
    by (simp add: update_conv')
  then show ?case by (simp add: "2.IH" map_add_assoc del: map_add_upd)
qed

lemma map_of_any_items: "map_of (any_items d) k = map_option Plain (map_of d k)"
  by (induction d) (auto simp: any_items_def)

lemma plain_any_items: "plain_items (any_items d) = d"
  by (induction d) (auto simp: any_items_def plain_items_def)

lemma any_plain_items: "dump_error m = None \<Longrightarrow> any_items (plain_items m) = m"
proof (induction m rule: dump_error.induct)
  case 1
  show ?case by (simp add: any_items_def plain_items_def)
next
  case (2 k v items)
  then show ?case
    by (cases v) (auto simp: any_items_def plain_items_def split: if_splits)
qed

lemma dump_error_any_items: "(dump_error (any_items d) = None) = json_encodable (JObj d)"
  by (induction d) (auto simp: any_items_def)

lemma read_after_write:
  "write_file s p c = Inr s' \<Longrightarrow> read_file s' p = Some c"
  by (auto simp: write_file_def read_file_def parent_exists_def update_conv' split: if_splits)

lemma makedirs_present:
  "d \<noteq> [] \<Longrightarrow> parent_exists s d \<Longrightarrow> makedirs s d = Inr s"
  by (simp add: makedirs_def parent_exists_def)

lemma update_client_missing:
  "read_file s (clients_dir db, fname) = None \<Longrightarrow>
   update_client db fname ups s = (Inl FileNotFoundError, s)"
  by (simp add: update_client_def load_client_def load_json_def)

text \<open>An update that does not get as far as opening the file for writing.\<close>

lemma update_client_not_loaded:
  assumes "(\<forall>d. read_file s (clients_dir db, fname) \<noteq> Some (JsonText (JObj d))) \<or> clients_dir db = []"
  shows "\<exists>e. update_client db fname ups s = (Inl e, s)"
proof (cases "read_file s (clients_dir db, fname)")
  case None
  then show ?thesis by (simp add: update_client_missing)
next
  case (Some c)
  show ?thesis
  proof (cases "json_loads c")
    case None
    with Some show ?thesis by (simp add: update_client_def load_client_def load_json_def)
  next
    case (Some v)
    note v = this
    show ?thesis
    proof (cases "\<exists>d. v = JObj d")
      case False
      with v \<open>read_file s (clients_dir db, fname) = Some c\<close> show ?thesis
        by (cases v) (simp_all add: update_client_def load_client_def load_json_def)
    next
      case True
      then obtain d where d: "v = JObj d" by blast
      from v d have "c = JsonText (JObj d)" by (cases c) simp_all
      with assms \<open>read_file s (clients_dir db, fname) = Some c\<close> have "clients_dir db = []" by simp
      with v d \<open>read_file s (clients_dir db, fname) = Some c\<close> show ?thesis
        by (simp add: update_client_def load_client_def load_json_def makedirs_def Let_def)
    qed
  qed
qed

text \<open>An update that does: the file is opened, and holds the merged document or a fragment.\<close>

lemma update_client_loaded:
  assumes "read_file s (clients_dir db, fname) = Some (JsonText (JObj d))"
    and "clients_dir db \<noteq> []"
  shows "update_client db fname ups s =
           (case dump_error (dict_update (any_items d) ups) of
              Some e \<Rightarrow>
                (Inl e, s\<lparr>entries := AList.update (clients_dir db, fname) BadText (entries s)\<rparr>)
            | None \<Rightarrow>
                (Inr \<lparr> filename = fname, path = (clients_dir db, fname),
                       data = JObj (plain_items (dict_update (any_items d) ups)) \<rparr>,
                 s\<lparr>entries := AList.update (clients_dir db, fname)
                     (JsonText (JObj (plain_items (dict_update (any_items d) ups)))) (entries s)\<rparr>))"
proof -
  have pe: "parent_exists s (clients_dir db)"
    using assms(1) by (auto simp: read_file_def split: if_splits)
  have mk: "makedirs s (clients_dir db) = Inr s" using assms(2) pe by (rule makedirs_present)
  show ?thesis
    using assms pe
    by (simp add: update_client_def load_client_def load_json_def mk write_file_def Let_def
             split: option.splits)
qed

lemma update_client_success:
  assumes "fst (update_client db fname ups s) = Inr r"
  shows "\<exists>d. read_file s (clients_dir db, fname) = Some (JsonText (JObj d))
           \<and> clients_dir db \<noteq> []
           \<and> dump_error (dict_update (any_items d) ups) = None
           \<and> data r = JObj (plain_items (dict_update (any_items d) ups))
           \<and> read_file (snd (update_client db fname ups s)) (clients_dir db, fname)
               = Some (JsonText (JObj (plain_items (dict_update (any_items d) ups))))"
proof -
  have "\<not> ((\<forall>d. read_file s (clients_dir db, fname) \<noteq> Some (JsonText (JObj d))) \<or> clients_dir db = [])"
  proof
    assume "(\<forall>d. read_file s (clients_dir db, fname) \<noteq> Some (JsonText (JObj d))) \<or> clients_dir db = []"
    from update_client_not_loaded[OF this, of ups] obtain e' where
      "update_client db fname ups s = (Inl e', s)" by blast
    with assms show False by simp
  qed
  then obtain d where d: "read_file s (clients_dir db, fname) = Some (JsonText (JObj d))"
    and ne: "clients_dir db \<noteq> []" by blast
  have pe: "parent_exists s (clients_dir db)"
    using d by (auto simp: read_file_def split: if_splits)
  note u = update_client_loaded[OF d ne, of ups]
  from assms u have ok: "dump_error (dict_update (any_items d) ups) = None"
    by (cases "dump_error (dict_update (any_items d) ups)") simp_all
  from assms u ok have r: "data r = JObj (plain_items (dict_update (any_items d) ups))" by auto
  have "read_file (snd (update_client db fname ups s)) (clients_dir db, fname)
               = Some (JsonText (JObj (plain_items (dict_update (any_items d) ups))))"
    using pe by (simp add: u ok read_file_def parent_exists_def update_conv')
  with d ne ok r show ?thesis by blast
qed

lemma merged_lookup:
  assumes "dump_error (dict_update (any_items d) ups) = None"
  shows "map_option Plain (map_of (plain_items (dict_update (any_items d) ups)) k)
           = (case map_of (rev ups) k of Some v \<Rightarrow> Some v | None \<Rightarrow> map_option Plain (map_of d k))"
proof -
  have "map_option Plain (map_of (plain_items (dict_update (any_items d) ups)) k)
          = map_of (any_items (plain_items (dict_update (any_items d) ups))) k"
    by (simp add: map_of_any_items)
  also have "\<dots> = map_of (dict_update (any_items d) ups) k"
    using assms by (simp add: any_plain_items)
  also have "\<dots> = (map_of (any_items d) ++ map_of (rev ups)) k"
    by (simp add: map_of_dict_update)
  also have "\<dots> = (case map_of (rev ups) k of Some v \<Rightarrow> Some v | None \<Rightarrow> map_option Plain (map_of d k))"
    by (simp add: map_add_def map_of_any_items split: option.splits)
  finally show ?thesis .
qed

text \<open>
  Claim C6, as the code has it: an update of a document that is not stored fails with
  FileNotFoundError and changes nothing; every failure raised before the file is opened for
  writing leaves the file system as it was, that is, a failure that changes it is one that
  \<^verbatim>\<open>json.dump\<close> raises on the merged document; and after a successful update the file holds
  the whole merged document that is returned, in which every key of the updates has the
  update's value and every other key the value it had.
\<close>

theorem update_not_found_and_early_failures:
  "(read_file s (clients_dir db, fname) = None \<longrightarrow>
      update_client db fname ups s = (Inl FileNotFoundError, s))
   \<and> (fst (update_client db fname ups s) = Inl e \<and> snd (update_client db fname ups s) \<noteq> s \<longrightarrow>
      (\<exists>d. read_file s (clients_dir db, fname) = Some (JsonText (JObj d))
           \<and> dump_error (dict_update (any_items d) ups) = Some e))
   \<and> (fst (update_client db fname ups s) = Inr r \<longrightarrow>
      (\<exists>d d'. read_file s (clients_dir db, fname) = Some (JsonText (JObj d))
           \<and> data r = JObj d'
           \<and> read_file (snd (update_client db fname ups s)) (clients_dir db, fname)
               = Some (JsonText (JObj d'))
           \<and> (\<forall>k. map_option Plain (map_of d' k)
                  = (case map_of (rev ups) k of
                       Some v \<Rightarrow> Some v
                     | None \<Rightarrow> map_option Plain (map_of d k)))))"
proof (intro conjI impI)
  assume "read_file s (clients_dir db, fname) = None"
  then show "update_client db fname ups s = (Inl FileNotFoundError, s)"
    by (rule update_client_missing)
next
  assume a: "fst (update_client db fname ups s) = Inl e \<and> snd (update_client db fname ups s) \<noteq> s"
  have "\<not> ((\<forall>d. read_file s (clients_dir db, fname) \<noteq> Some (JsonText (JObj d))) \<or> clients_dir db = [])"
  proof
    assume "(\<forall>d. read_file s (clients_dir db, fname) \<noteq> Some (JsonText (JObj d))) \<or> clients_dir db = []"
    from update_client_not_loaded[OF this, of ups] obtain e' where
      "update_client db fname ups s = (Inl e', s)" by blast
    with a show False by simp
  qed
  then obtain d where d: "read_file s (clients_dir db, fname) = Some (JsonText (JObj d))"
    and ne: "clients_dir db \<noteq> []" by blast
  note u = update_client_loaded[OF d ne, of ups]
  from a u have "dump_error (dict_update (any_items d) ups) = Some e"
    by (cases "dump_error (dict_update (any_items d) ups)") simp_all
  with d show "\<exists>d. read_file s (clients_dir db, fname) = Some (JsonText (JObj d))
           \<and> dump_error (dict_update (any_items d) ups) = Some e" by blast
next
  assume "fst (update_client db fname ups s) = Inr r"
  from update_client_success[OF this] obtain d where
    d: "read_file s (clients_dir db, fname) = Some (JsonText (JObj d))"
    and ok: "dump_error (dict_update (any_items d) ups) = None"
    and r: "data r = JObj (plain_items (dict_update (any_items d) ups))"
    and f: "read_file (snd (update_client db fname ups s)) (clients_dir db, fname)
               = Some (JsonText (JObj (plain_items (dict_update (any_items d) ups))))"
    by blast
  from merged_lookup[OF ok] d r f
  show "\<exists>d d'. read_file s (clients_dir db, fname) = Some (JsonText (JObj d))
           \<and> data r = JObj d'
           \<and> read_file (snd (update_client db fname ups s)) (clients_dir db, fname)
               = Some (JsonText (JObj d'))
           \<and> (\<forall>k. map_option Plain (map_of d' k)
                  = (case map_of (rev ups) k of
                       Some v \<Rightarrow> Some v
                     | None \<Rightarrow> map_option Plain (map_of d k)))" by blast
qed

theorem update_not_found_and_early_failures_witness:
  "update_client \<lparr>base_dir = ''/data''\<rparr> ''zed.json'' [(''phone'', Plain (JStr ''1''))]
      \<lparr>dirs = [''/data''],
       entries = [((''/data'', ''ann.json''),
                   JsonText (JObj [(''name'', JStr ''Ann''), (''city'', JStr ''Rome'')]))]\<rparr>
     = (Inl FileNotFoundError,
        \<lparr>dirs = [''/data''],
         entries = [((''/data'', ''ann.json''),
                     JsonText (JObj [(''name'', JStr ''Ann''), (''city'', JStr ''Rome'')]))]\<rparr>)
   \<and> dump_error (dict_update (any_items [(''name'', JStr ''Ann''), (''city'', JStr ''Rome'')])
                   [(''phone'', Foreign ValueError)]) = Some ValueError
   \<and> read_file (snd (update_client \<lparr>base_dir = ''/data''\<rparr> ''ann.json''
          [(''name'', Plain (JStr ''Bob'')), (''phone'', Plain (JStr ''1''))]
          \<lparr>dirs = [''/data''],
           entries = [((''/data'', ''ann.json''),
                       JsonText (JObj [(''name'', JStr ''Ann''), (''city'', JStr ''Rome'')]))]\<rparr>))
       (''/data'', ''ann.json'')
     = Some (JsonText (JObj [(''name'', JStr ''Bob''), (''city'', JStr ''Rome''), (''phone'', JStr ''1'')]))"
proof -
  let ?S = "\<lparr>dirs = [''/data''],
             entries = [((''/data'', ''ann.json''),
                         JsonText (JObj [(''name'', JStr ''Ann''), (''city'', JStr ''Rome'')]))]\<rparr>"
  let ?DB = "\<lparr>base_dir = ''/data''\<rparr>"
  let ?R = "\<lparr>filename = ''ann.json'', path = (''/data'', ''ann.json''),
             data = JObj [(''name'', JStr ''Bob''), (''city'', JStr ''Rome''), (''phone'', JStr ''1'')]\<rparr>"
  have h1: "read_file ?S (clients_dir ?DB, ''zed.json'') = None"
    by (simp add: read_file_def clients_dir_def)
  have h2: "fst (update_client ?DB ''ann.json'' [(''phone'', Foreign ValueError)] ?S) = Inl ValueError
            \<and> snd (update_client ?DB ''ann.json'' [(''phone'', Foreign ValueError)] ?S) \<noteq> ?S"
    by (simp add: update_client_def load_client_def load_json_def read_file_def parent_exists_def
          clients_dir_def makedirs_def write_file_def any_items_def str_encodable_def Let_def)
  have h3: "fst (update_client ?DB ''ann.json''
                  [(''name'', Plain (JStr ''Bob'')), (''phone'', Plain (JStr ''1''))] ?S) = Inr ?R"
    by (simp add: update_client_def load_client_def load_json_def read_file_def parent_exists_def
          clients_dir_def makedirs_def write_file_def any_items_def plain_items_def
          str_encodable_def Let_def)
  from h1 update_not_found_and_early_failures[of ?S ?DB "''zed.json''" "[(''phone'', Plain (JStr ''1''))]"
        ValueError ?R]
  have c1: "update_client ?DB ''zed.json'' [(''phone'', Plain (JStr ''1''))] ?S
              = (Inl FileNotFoundError, ?S)" by blast
  from h2 update_not_found_and_early_failures[of ?S ?DB "''ann.json''" "[(''phone'', Foreign ValueError)]"
        ValueError ?R]
  obtain d where "read_file ?S (clients_dir ?DB, ''ann.json'') = Some (JsonText (JObj d))"
    and "dump_error (dict_update (any_items d) [(''phone'', Foreign ValueError)]) = Some ValueError"
    by blast
  then have c2: "dump_error (dict_update (any_items [(''name'', JStr ''Ann''), (''city'', JStr ''Rome'')])
                   [(''phone'', Foreign ValueError)]) = Some ValueError"
    by (simp add: read_file_def parent_exists_def clients_dir_def)
  from h3 update_not_found_and_early_failures[of ?S ?DB "''ann.json''"
        "[(''name'', Plain (JStr ''Bob'')), (''phone'', Plain (JStr ''1''))]" ValueError ?R]
  obtain d' where "data ?R = JObj d'"
    and "read_file (snd (update_client ?DB ''ann.json''
            [(''name'', Plain (JStr ''Bob'')), (''phone'', Plain (JStr ''1''))] ?S))
          (clients_dir ?DB, ''ann.json'') = Some (JsonText (JObj d'))"
    by blast
  then have c3: "read_file (snd (update_client ?DB ''ann.json''
            [(''name'', Plain (JStr ''Bob'')), (''phone'', Plain (JStr ''1''))] ?S))
          (''/data'', ''ann.json'')
        = Some (JsonText (JObj [(''name'', JStr ''Bob''), (''city'', JStr ''Rome''), (''phone'', JStr ''1'')]))"
    by (simp add: clients_dir_def)
  from c1 c2 c3 show ?thesis by blast
qed

text \<open>
  An update value that \<^verbatim>\<open>json.dump\<close> cannot write makes the update fail after the file
  has been opened for writing: the document that was stored is gone.
\<close>

theorem update_write_failure_counterexample:
  "\<not> (fst (update_client \<lparr>base_dir = ''/data''\<rparr> ''ann.json'' [(''phone'', Foreign TypeError)]
             \<lparr>dirs = [''/data''],
              entries = [((''/data'', ''ann.json''), JsonText (JObj [(''name'', JStr ''Ann'')]))]\<rparr>)
         = Inl TypeError \<longrightarrow>
       read_file (snd (update_client \<lparr>base_dir = ''/data''\<rparr> ''ann.json'' [(''phone'', Foreign TypeError)]
             \<lparr>dirs = [''/data''],
              entries = [((''/data'', ''ann.json''), JsonText (JObj [(''name'', JStr ''Ann'')]))]\<rparr>))
          (''/data'', ''ann.json'')
         = read_file \<lparr>dirs = [''/data''],
              entries = [((''/data'', ''ann.json''), JsonText (JObj [(''name'', JStr ''Ann'')]))]\<rparr>
             (''/data'', ''ann.json''))"
  by (simp add: update_client_def load_client_def load_json_def read_file_def parent_exists_def
        clients_dir_def makedirs_def write_file_def any_items_def str_encodable_def Let_def)

text \<open>
  Claim C9, as the code has it: for a stored document that \<^verbatim>\<open>json.dump\<close> can write back,
  one without a lone surrogate in a string or key, an update with no keys leaves the file
  system as it was and returns the stored object; and after any update that succeeds, a key
  that the updates do not mention has the value it had.
\<close>

theorem update_empty_round_trip:
  "((\<forall>d. read_file s (clients_dir db, fname) = Some (JsonText (JObj d)) \<longrightarrow> json_encodable (JObj d))
      \<longrightarrow> snd (update_client db fname [] s) = s)
   \<and> (read_file s (clients_dir db, fname) = Some (JsonText (JObj d)) \<and> json_encodable (JObj d)
        \<and> clients_dir db \<noteq> [] \<longrightarrow>
        fst (update_client db fname [] s)
          = Inr \<lparr> filename = fname, path = (clients_dir db, fname), data = JObj d \<rparr>)
   \<and> (fst (update_client db fname ups s) = Inr r
        \<and> read_file s (clients_dir db, fname) = Some (JsonText (JObj d))
        \<and> k \<notin> fst ` set ups \<longrightarrow>
        (\<exists>d'. read_file (snd (update_client db fname ups s)) (clients_dir db, fname)
                 = Some (JsonText (JObj d'))
              \<and> map_of d' k = map_of d k))"
proof (intro conjI impI)
  assume enc: "\<forall>d. read_file s (clients_dir db, fname) = Some (JsonText (JObj d)) \<longrightarrow> json_encodable (JObj d)"
  show "snd (update_client db fname [] s) = s"
  proof (cases "(\<forall>d. read_file s (clients_dir db, fname) \<noteq> Some (JsonText (JObj d))) \<or> clients_dir db = []")
    case True
    from update_client_not_loaded[OF this, of "[]"] obtain e' where
      "update_client db fname [] s = (Inl e', s)" by blast
    then show ?thesis by simp
  next
    case False
    then obtain d0 where d0: "read_file s (clients_dir db, fname) = Some (JsonText (JObj d0))"
      and ne: "clients_dir db \<noteq> []" by blast
    from enc d0 have ok: "dump_error (any_items d0) = None" by (simp add: dump_error_any_items)
    have m: "map_of (entries s) (clients_dir db, fname) = Some (JsonText (JObj d0))"
      using d0 by (auto simp: read_file_def split: if_splits)
    show ?thesis
      using update_client_loaded[OF d0 ne, of "[]"] m
      by (simp add: ok plain_any_items update_triv)
  qed
next
  assume a: "read_file s (clients_dir db, fname) = Some (JsonText (JObj d)) \<and> json_encodable (JObj d)
        \<and> clients_dir db \<noteq> []"
  then have ok: "dump_error (any_items d) = None" by (simp add: dump_error_any_items)
  from a show "fst (update_client db fname [] s)
          = Inr \<lparr> filename = fname, path = (clients_dir db, fname), data = JObj d \<rparr>"
    using update_client_loaded[of s db fname d "[]"] by (simp add: ok plain_any_items)
next
  assume a: "fst (update_client db fname ups s) = Inr r
        \<and> read_file s (clients_dir db, fname) = Some (JsonText (JObj d))
        \<and> k \<notin> fst ` set ups"
  from a update_client_success[of db fname ups s r] have
    ok: "dump_error (dict_update (any_items d) ups) = None"
    and f: "read_file (snd (update_client db fname ups s)) (clients_dir db, fname)
               = Some (JsonText (JObj (plain_items (dict_update (any_items d) ups))))"
    by auto
  from a have "map_of (rev ups) k = None" by (simp add: map_of_eq_None_iff)
  with merged_lookup[OF ok, of k]
  have "map_option Plain (map_of (plain_items (dict_update (any_items d) ups)) k)
          = map_option Plain (map_of d k)" by simp
  then have "map_of (plain_items (dict_update (any_items d) ups)) k = map_of d k"
    by (cases "map_of (plain_items (dict_update (any_items d) ups)) k"; cases "map_of d k") simp_all
  with f show "\<exists>d'. read_file (snd (update_client db fname ups s)) (clients_dir db, fname)
                 = Some (JsonText (JObj d'))
              \<and> map_of d' k = map_of d k" by blast
qed

theorem update_empty_round_trip_witness:
  "update_client \<lparr>base_dir = ''/data''\<rparr> ''ann.json'' []
      \<lparr>dirs = [''/data''],
       entries = [((''/data'', ''ann.json''), JsonText (JObj [(''name'', JStr ''Ann''), (''phone'', JNull)])),
                  ((''/data'', ''bob.json''), BadText)]\<rparr>
   = (Inr \<lparr>filename = ''ann.json'', path = (''/data'', ''ann.json''),
            data = JObj [(''name'', JStr ''Ann''), (''phone'', JNull)]\<rparr>,
      \<lparr>dirs = [''/data''],
       entries = [((''/data'', ''ann.json''), JsonText (JObj [(''name'', JStr ''Ann''), (''phone'', JNull)])),
                  ((''/data'', ''bob.json''), BadText)]\<rparr>)"
  using update_empty_round_trip[of
      "\<lparr>dirs = [''/data''],
       entries = [((''/data'', ''ann.json''), JsonText (JObj [(''name'', JStr ''Ann''), (''phone'', JNull)])),
                  ((''/data'', ''bob.json''), BadText)]\<rparr>"
      "\<lparr>base_dir = ''/data''\<rparr>" "''ann.json''"
      "[(''name'', JStr ''Ann''), (''phone'', JNull)]" "[]"
      "\<lparr>filename = ''ann.json'', path = (''/data'', ''ann.json''),
            data = JObj [(''name'', JStr ''Ann''), (''phone'', JNull)]\<rparr>" "''name''"]
  by (simp add: read_file_def parent_exists_def clients_dir_def prod_eq_iff str_encodable_def)

text \<open>
  A stored document with a lone surrogate in a string, as \<^verbatim>\<open>{"note": "\udc80"}\<close>, is
  loaded, and \<^verbatim>\<open>json.dump\<close> raises UnicodeEncodeError on it after the file has been opened
  for writing: the update with no keys destroys the document.
\<close>

theorem update_empty_surrogate_counterexample:
  "\<not> (read_file (snd (update_client \<lparr>base_dir = ''/data''\<rparr> ''ann.json'' []
             \<lparr>dirs = [''/data''],
              entries = [((''/data'', ''ann.json''), JsonText (JObj [(''note'', JStr [CHR 0x80])]))]\<rparr>))
          (''/data'', ''ann.json'')
       = read_file \<lparr>dirs = [''/data''],
              entries = [((''/data'', ''ann.json''), JsonText (JObj [(''note'', JStr [CHR 0x80])]))]\<rparr>
             (''/data'', ''ann.json''))"
  by (simp add: update_client_def load_client_def load_json_def read_file_def parent_exists_def
        clients_dir_def makedirs_def write_file_def any_items_def str_encodable_def Let_def)

section \<open>Dates of file names and the order of a listing\<close>








lemma digit_val_pos: "b \<in> set ''123456789'' \<Longrightarrow> 1 \<le> digit_val b"
  by (auto simp: digit_val_def)














section \<open>Documents whose root is not an object\<close>

text \<open>
  Claim C7 at a folder that holds a client file and a file whose root is a list: the listing
  holds a record for the list, a search by business name raises AttributeError on it and so
  does the CSV export, while \<^verbatim>\<open>summarize\<close> passes the same document over.
\<close>

theorem list_clients_keeps_non_object_root:
  "list_clients \<lparr>base_dir = ''/data''\<rparr>
      \<lparr>dirs = [''/data''],
       entries = [((''/data'', ''acme.json''),
                    JsonText (JObj [(''business_name'', JStr ''Acme''), (''industry'', JStr ''Tech'')])),
                  ((''/data'', ''notes.json''), JsonText (JList [JStr ''call back'']))]\<rparr>
     = [\<lparr>filename = ''acme.json'', path = (''/data'', ''acme.json''),
          data = JObj [(''business_name'', JStr ''Acme''), (''industry'', JStr ''Tech'')]\<rparr>,
        \<lparr>filename = ''notes.json'', path = (''/data'', ''notes.json''),
          data = JList [JStr ''call back'']\<rparr>]
   \<and> search_clients \<lparr>base_dir = ''/data''\<rparr> (Some ''acme'') None None
      \<lparr>dirs = [''/data''],
       entries = [((''/data'', ''acme.json''),
                    JsonText (JObj [(''business_name'', JStr ''Acme''), (''industry'', JStr ''Tech'')])),
                  ((''/data'', ''notes.json''), JsonText (JList [JStr ''call back'']))]\<rparr>
     = Inl AttributeError
   \<and> fst (export_to_csv \<lparr>base_dir = ''/data''\<rparr> None
      \<lparr>dirs = [''/data''],
       entries = [((''/data'', ''acme.json''),
                    JsonText (JObj [(''business_name'', JStr ''Acme''), (''industry'', JStr ''Tech'')])),
                  ((''/data'', ''notes.json''), JsonText (JList [JStr ''call back'']))]\<rparr>)
     = Inl AttributeError
   \<and> fst (summarize exact_runtime
       [JsonText (JObj [(''business_name'', JStr ''Acme''), (''industry'', JStr ''Tech'')]),
        JsonText (JList [JStr ''call back''])]) = 1"
  by code_simp

section \<open>A storage directory that does not exist\<close>

lemma list_clients_missing_dir:
  "\<not> isdir s (clients_dir db) \<Longrightarrow> list_clients db s = []"
  by (simp add: list_clients_def)

lemma search_clients_missing_dir:
  "\<not> isdir s (clients_dir db) \<Longrightarrow> search_clients db bname ind dt s = Inr []"
  by (simp add: search_clients_def list_clients_def Let_def)

lemma export_missing_dir_default:
  "\<not> parent_exists s (base_dir db) \<Longrightarrow> export_to_csv db None s = (Inl FileNotFoundError, s)"
  by (simp add: export_to_csv_def list_clients_def clients_dir_def isdir_def parent_exists_def
        default_csv_path_def write_file_def Let_def)

text \<open>
  Claim C10 at a base directory that does not exist: the listing and a search are empty, and
  the CSV export to its default path raises FileNotFoundError, since the branch for an empty
  listing opens the file without creating the directory.
\<close>

theorem export_missing_dir_raises:
  "list_clients \<lparr>base_dir = ''/data''\<rparr> \<lparr>dirs = [], entries = []\<rparr> = []
   \<and> search_clients \<lparr>base_dir = ''/data''\<rparr> (Some ''acme'') None None \<lparr>dirs = [], entries = []\<rparr> = Inr []
   \<and> export_to_csv \<lparr>base_dir = ''/data''\<rparr> None \<lparr>dirs = [], entries = []\<rparr>
       = (Inl FileNotFoundError, \<lparr>dirs = [], entries = []\<rparr>)"
  by (simp add: export_to_csv_def search_clients_def list_clients_def clients_dir_def isdir_def
        parent_exists_def default_csv_path_def write_file_def Let_def)

end
